theory Spec2Isabelle
  imports Complex_Main
begin

section \<open>The game client of pgo-client: data model\<close>

text \<open>
  The embedding follows \<^verbatim>\<open>src/game/game.go\<close> (the current \<^verbatim>\<open>Update\<close>, \<^verbatim>\<open>handleChatInput\<close>,
  \<^verbatim>\<open>setDirection\<close>, \<^verbatim>\<open>updateFrameIndex\<close>, \<^verbatim>\<open>getCurrentFrame\<close>, \<^verbatim>\<open>drawChatBox\<close>, \<^verbatim>\<open>clamp\<close>),
  the receive loop \<^verbatim>\<open>ListenToServer\<close> of the connection file, and the struct \<^verbatim>\<open>Input\<close>,
  whose declaration survives only in the earlier single-file client.

  Go's \<^verbatim>\<open>int\<close> is 64 bits wide: sums and differences of state fields are wrapped with
  \<open>wrap64\<close>, and \<^verbatim>\<open>%\<close> is Go's truncated remainder. A \<^verbatim>\<open>string\<close> is a sequence of bytes and
  \<^verbatim>\<open>len\<close> counts bytes, so a string is a \<^typ>\<open>char list\<close>. A \<^verbatim>\<open>time.Time\<close> is a number of
  nanoseconds. The mutex \<^verbatim>\<open>mu\<close> and the log lines have no counterpart: every function is
  modelled as one atomic step. The connection is the list of values handed to
  \<^verbatim>\<open>Conn.WriteJSON\<close>, in order; its error result is discarded by the source as well.
  Dialling, the login flow, the loading of images and the drawing primitives are outside
  the embedding; of \<^verbatim>\<open>Draw\<close> it keeps the frame lookup and the loop over the chat lines.
\<close>

definition ScreenWidth :: int where "ScreenWidth = 800"
definition ScreenHeight :: int where "ScreenHeight = 600"
definition Millisecond :: int where "Millisecond = 1000000"
definition debounceTime :: int where "debounceTime = 200 * Millisecond"
definition maxChatLines :: int where "maxChatLines = 10"
definition maxMessageLen :: int where "maxMessageLen = 100"
definition cursorBlinkInterval :: int where "cursorBlinkInterval = 500 * Millisecond"
definition scrollBarWidth :: int where "scrollBarWidth = 10"

datatype Direction = North | East | South | West

datatype AnimationType = Idle | Walk

text \<open>An \<^verbatim>\<open>*ebiten.Image\<close> is an opaque handle.\<close>

type_synonym image = nat

record Player =
  Player_ID :: string
  Player_X :: real
  Player_Y :: real

record ChatMessage =
  ChatMessage_Username :: string
  ChatMessage_Message :: string

text \<open>
  \<^verbatim>\<open>type Input struct { Type string `json:"type"`; Amount float64 `json:"amount"` }\<close>
\<close>

record Input =
  Input_Type :: string
  Input_Amount :: real

text \<open>
  A missing key of a Go map reads as the zero value: \<open>PlayerImages\<close> is a total function
  into frame lists (\<open>[]\<close> is the nil slice), \<open>AnimationSpeeds\<close> a partial map read with
  default \<open>0\<close>.
\<close>

record Game =
  PlayerImages :: "Direction \<Rightarrow> AnimationType \<Rightarrow> image list"
  Players :: "string \<rightharpoonup> Player"
  ClientID :: string
  FrameIndex :: int
  AnimationTick :: int
  AnimationSpeed :: int
  AnimationSpeeds :: "AnimationType \<rightharpoonup> int"
  Direction :: Direction
  IsMoving :: bool
  IsMapEditorActive :: bool
  IsInventoryActive :: bool
  IsChatBoxActive :: bool
  IsChatCursorActive :: bool
  lastToggleTime :: int
  lastCursorBlink :: int
  cursorVisible :: bool
  chatMessages :: "string list"
  currentChatMessage :: string
  Username :: string
  chatScrollOffset :: int
  isDraggingScrollBar :: bool
  dragStartY :: int
  originalScrollOffset :: int

subsection \<open>What one call of Update reads from the engine\<close>

datatype Key = KeyTab | KeyEnter | KeyM | KeyI | KeyUp | KeyDown | KeyLeft | KeyRight
  | KeyPageUp | KeyPageDown | KeyBackspace

text \<open>
  \<open>now\<close> is \<^verbatim>\<open>time.Now()\<close>, \<open>keys\<close> the keys for which \<^verbatim>\<open>ebiten.IsKeyPressed\<close> holds,
  \<open>inputChars\<close> the runes of \<^verbatim>\<open>ebiten.InputChars()\<close>, \<open>mouseLeft\<close> the left mouse button and
  \<open>cursorPosition\<close> the pointer. \<open>overScrollBar\<close> is the outcome of the \<^verbatim>\<open>float64\<close> hit test
  of lines 183 to 185 (its quotients may be infinite or NaN), which is read here rather than
  computed.
\<close>

record Frame =
  now :: int
  keys :: "Key set"
  inputChars :: "int list"
  mouseLeft :: bool
  cursorPosition :: "int \<times> int"
  overScrollBar :: bool

definition IsKeyPressed :: "Frame \<Rightarrow> Key \<Rightarrow> bool" where
  "IsKeyPressed f k = (k \<in> keys f)"

datatype wire = WInput Input | WChat ChatMessage

subsection \<open>Go arithmetic\<close>

definition wrap64 :: "int \<Rightarrow> int" where
  "wrap64 x = (x + 2 ^ 63) mod 2 ^ 64 - 2 ^ 63"

text \<open>Go's \<^verbatim>\<open>a % b\<close>: the remainder of the division that truncates towards zero.\<close>

definition go_rem :: "int \<Rightarrow> int \<Rightarrow> int" where
  "go_rem a b = sgn a * (\<bar>a\<bar> mod \<bar>b\<bar>)"

text \<open>
  \<^verbatim>\<open>int(p / q)\<close> for a quotient of two integer-valued \<^verbatim>\<open>float64\<close>: truncation towards
  zero. The product and the correctly rounded quotient are exact enough for this below
  \<open>2 ^ 44\<close>, far above any pointer coordinate times any history length.
\<close>

definition float_quot_to_int :: "int \<Rightarrow> int \<Rightarrow> int" where
  "float_quot_to_int p q = sgn p * sgn q * (\<bar>p\<bar> div \<bar>q\<bar>)"

definition maxDuration :: int where "maxDuration = 2 ^ 63 - 1"
definition minDuration :: int where "minDuration = - (2 ^ 63)"

text \<open>\<^verbatim>\<open>t.Sub(u)\<close> saturates at the largest and smallest \<^verbatim>\<open>Duration\<close>.\<close>

definition Sub :: "int \<Rightarrow> int \<Rightarrow> int" where
  "Sub t u = (if t - u > maxDuration then maxDuration
              else if t - u < minDuration then minDuration else t - u)"

definition min_go :: "int \<Rightarrow> int \<Rightarrow> int" where
  "min_go a b = (if a < b then a else b)"

definition max_go :: "int \<Rightarrow> int \<Rightarrow> int" where
  "max_go a b = (if a > b then a else b)"

definition clamp :: "int \<Rightarrow> int \<Rightarrow> int \<Rightarrow> int" where
  "clamp v minValue maxValue =
     (if v < minValue then minValue else if v > maxValue then maxValue else v)"

text \<open>
  \<^verbatim>\<open>string(char)\<close> for a rune: its UTF-8 encoding, and the encoding of U+FFFD for a value that
  is no valid code point.
\<close>

definition string_of_rune :: "int \<Rightarrow> string" where
  "string_of_rune r =
     (if 0 \<le> r \<and> r \<le> 0x7F then [char_of r]
      else if 0 \<le> r \<and> r \<le> 0x7FF then
        [char_of (0xC0 + r div 64), char_of (0x80 + r mod 64)]
      else if r < 0 \<or> r > 0x10FFFF \<or> (0xD800 \<le> r \<and> r \<le> 0xDFFF) then
        [char_of (0xEF :: int), char_of (0xBF :: int), char_of (0xBD :: int)]
      else if r \<le> 0xFFFF then
        [char_of (0xE0 + r div 4096), char_of (0x80 + (r div 64) mod 64),
         char_of (0x80 + r mod 64)]
      else
        [char_of (0xF0 + r div 262144), char_of (0x80 + (r div 4096) mod 64),
         char_of (0x80 + (r div 64) mod 64), char_of (0x80 + r mod 64)])"

section \<open>The operations\<close>

definition animationType :: "Game \<Rightarrow> AnimationType" where
  "animationType g = (if IsMoving g then Walk else Idle)"

definition setDirection :: "Direction \<Rightarrow> Game \<Rightarrow> Game" where
  "setDirection direction g =
     (if Direction g \<noteq> direction then g\<lparr>Direction := direction, FrameIndex := 0\<rparr> else g)"

definition updateFrameIndex :: "Game \<Rightarrow> Game" where
  "updateFrameIndex g =
     (let frameCount = int (length (PlayerImages g (Direction g) (animationType g)))
      in if frameCount > 0
         then g\<lparr>FrameIndex := go_rem (wrap64 (FrameIndex g + 1)) frameCount\<rparr>
         else g\<lparr>FrameIndex := 0\<rparr>)"

datatype frame_error = NoFramesAvailable | FrameIndexOutOfRange | PanicIndexOutOfRange

text \<open>
  A negative index passes the test \<^verbatim>\<open>g.FrameIndex < len(frames)\<close> and the slice access
  panics.
\<close>

definition getCurrentFrame :: "Game \<Rightarrow> frame_error + image" where
  "getCurrentFrame g =
     (let frames = PlayerImages g (Direction g) (animationType g)
      in if length frames > 0 then
           (if FrameIndex g < int (length frames) then
              (if FrameIndex g < 0 then Inl PanicIndexOutOfRange
               else Inr (frames ! nat (FrameIndex g)))
            else Inl FrameIndexOutOfRange)
         else Inl NoFramesAvailable)"

fun appendChars :: "int list \<Rightarrow> string \<Rightarrow> string" where
  "appendChars [] s = s"
| "appendChars (c # cs) s =
     appendChars cs (if int (length s) < maxMessageLen then s @ string_of_rune c else s)"

definition handleChatInput :: "Frame \<Rightarrow> Game \<Rightarrow> Game" where
  "handleChatInput f g =
     (let s = appendChars (inputChars f) (currentChatMessage g)
      in if IsKeyPressed f KeyBackspace \<and> length s > 0
         then g\<lparr>currentChatMessage := take (length s - 1) s\<rparr>
         else g\<lparr>currentChatMessage := s\<rparr>)"

subsection \<open>Update, block by block\<close>

text \<open>Lines 88 to 95: the Tab key shows or hides the chat box.\<close>

definition Update_chatBoxToggle :: "Frame \<Rightarrow> Game \<Rightarrow> Game" where
  "Update_chatBoxToggle f g =
     (if IsKeyPressed f KeyTab \<and> Sub (now f) (lastToggleTime g) > debounceTime then
        (let g1 = g\<lparr>IsChatBoxActive := \<not> IsChatBoxActive g, lastToggleTime := now f\<rparr>
         in if \<not> IsChatBoxActive g1 then g1\<lparr>IsChatCursorActive := False\<rparr> else g1)
      else g)"

text \<open>
  Lines 98 to 118: the Enter key gives the chat cursor the focus or takes it away; taking it
  away sends the text typed so far (lines 103 to 116, \<open>sendChat\<close>).
\<close>

definition scrollToBottom :: "Game \<Rightarrow> Game" where
  "scrollToBottom g =
     (if int (length (chatMessages g)) > maxChatLines
      then g\<lparr>chatScrollOffset := int (length (chatMessages g)) - maxChatLines\<rparr>
      else g\<lparr>chatScrollOffset := 0\<rparr>)"

definition sendChat :: "Game \<Rightarrow> Game \<times> wire list" where
  "sendChat g =
     (scrollToBottom
        (g\<lparr>chatMessages := chatMessages g @ [Username g @ '': '' @ currentChatMessage g],
           currentChatMessage := []\<rparr>),
      [WChat \<lparr>ChatMessage_Username = Username g,
              ChatMessage_Message = currentChatMessage g\<rparr>])"

definition toggleChatCursor :: "Frame \<Rightarrow> Game \<Rightarrow> Game" where
  "toggleChatCursor f g =
     g\<lparr>IsChatCursorActive := \<not> IsChatCursorActive g, lastToggleTime := now f\<rparr>"

definition Update_chatCursorToggle :: "Frame \<Rightarrow> Game \<Rightarrow> Game \<times> wire list" where
  "Update_chatCursorToggle f g =
     (if IsChatBoxActive g \<and> IsKeyPressed f KeyEnter
         \<and> Sub (now f) (lastToggleTime g) > debounceTime then
        (if \<not> IsChatCursorActive (toggleChatCursor f g)
            \<and> length (currentChatMessage (toggleChatCursor f g)) > 0
         then sendChat (toggleChatCursor f g)
         else (toggleChatCursor f g, []))
      else (g, []))"

text \<open>Lines 121 to 128: typing and cursor blinking while the cursor has the focus.\<close>

definition blinkCursor :: "Frame \<Rightarrow> Game \<Rightarrow> Game" where
  "blinkCursor f g =
     (if Sub (now f) (lastCursorBlink g) \<ge> cursorBlinkInterval
      then g\<lparr>cursorVisible := \<not> cursorVisible g, lastCursorBlink := now f\<rparr>
      else g)"

definition Update_chatCursor :: "Frame \<Rightarrow> Game \<Rightarrow> Game" where
  "Update_chatCursor f g =
     (if IsChatCursorActive g then blinkCursor f (handleChatInput f g) else g)"

text \<open>
  Lines 131 to 163: the other panels (lines 132 to 139) and the arrow keys (lines 141 to
  162), all skipped while the chat cursor has the focus.
\<close>

definition toggleMapEditor :: "Frame \<Rightarrow> Game \<Rightarrow> Game" where
  "toggleMapEditor f g =
     (if IsKeyPressed f KeyM \<and> Sub (now f) (lastToggleTime g) > debounceTime
      then g\<lparr>IsMapEditorActive := \<not> IsMapEditorActive g, lastToggleTime := now f\<rparr>
      else g)"

definition toggleInventory :: "Frame \<Rightarrow> Game \<Rightarrow> Game" where
  "toggleInventory f g =
     (if IsKeyPressed f KeyI \<and> Sub (now f) (lastToggleTime g) > debounceTime
      then g\<lparr>IsInventoryActive := \<not> IsInventoryActive g, lastToggleTime := now f\<rparr>
      else g)"

definition sendMove :: "string \<Rightarrow> Direction \<Rightarrow> Game \<Rightarrow> Game \<times> wire list" where
  "sendMove t d g =
     ((setDirection d g)\<lparr>IsMoving := True\<rparr>, [WInput \<lparr>Input_Type = t, Input_Amount = 2\<rparr>])"

definition arrowKeys :: "Frame \<Rightarrow> Game \<Rightarrow> Game \<times> wire list" where
  "arrowKeys f g =
     (if IsKeyPressed f KeyUp then sendMove ''move_up'' North g
      else if IsKeyPressed f KeyDown then sendMove ''move_down'' South g
      else if IsKeyPressed f KeyLeft then sendMove ''move_left'' West g
      else if IsKeyPressed f KeyRight then sendMove ''move_right'' East g
      else (g, []))"

definition Update_panelsAndMovement :: "Frame \<Rightarrow> Game \<Rightarrow> Game \<times> wire list" where
  "Update_panelsAndMovement f g =
     (if \<not> IsChatCursorActive g
      then arrowKeys f (toggleInventory f (toggleMapEditor f g))
      else (g, []))"

text \<open>
  Lines 166 to 197: dragging the scroll bar (lines 168 to 190), then PageUp and PageDown
  (lines 192 to 196), while the chat box is shown.
\<close>

definition dragScrollBar :: "Frame \<Rightarrow> Game \<Rightarrow> Game" where
  "dragScrollBar f g =
     (if isDraggingScrollBar g then
        (if mouseLeft f then
           g\<lparr>chatScrollOffset :=
                clamp (wrap64 (originalScrollOffset g
                         + float_quot_to_int
                             ((snd (cursorPosition f) - dragStartY g)
                                * (int (length (chatMessages g)) - maxChatLines)) 300))
                  0 (int (length (chatMessages g)) - maxChatLines)\<rparr>
         else g\<lparr>isDraggingScrollBar := False\<rparr>)
      else if mouseLeft f then
        (if overScrollBar f
         then g\<lparr>isDraggingScrollBar := True, dragStartY := snd (cursorPosition f),
                originalScrollOffset := chatScrollOffset g\<rparr>
         else g)
      else g)"

definition pageKeys :: "Frame \<Rightarrow> Game \<Rightarrow> Game" where
  "pageKeys f g =
     (if IsKeyPressed f KeyPageUp then
        g\<lparr>chatScrollOffset := max_go 0 (wrap64 (chatScrollOffset g - 1))\<rparr>
      else if IsKeyPressed f KeyPageDown then
        g\<lparr>chatScrollOffset :=
             min_go (int (length (chatMessages g)) - maxChatLines)
                    (wrap64 (chatScrollOffset g + 1))\<rparr>
      else g)"

definition Update_chatScrolling :: "Frame \<Rightarrow> Game \<Rightarrow> Game" where
  "Update_chatScrolling f g =
     (if IsChatBoxActive g then pageKeys f (dragScrollBar f g) else g)"

text \<open>Lines 200 to 209: the animation tick.\<close>

definition advanceTick :: "Game \<Rightarrow> Game" where
  "advanceTick g =
     g\<lparr>AnimationTick := wrap64 (AnimationTick g + 1),
       AnimationSpeed :=
         (case AnimationSpeeds g (animationType g) of None \<Rightarrow> 0 | Some s \<Rightarrow> s)\<rparr>"

definition Update_animation :: "Game \<Rightarrow> Game" where
  "Update_animation g =
     (if AnimationTick (advanceTick g) \<ge> AnimationSpeed (advanceTick g)
      then updateFrameIndex ((advanceTick g)\<lparr>AnimationTick := 0\<rparr>)
      else advanceTick g)"

text \<open>
  \<^verbatim>\<open>Update\<close> returns the new state and what it wrote to the connection. Its Go result is
  always \<^verbatim>\<open>nil\<close>.
\<close>

definition Update :: "Frame \<Rightarrow> Game \<Rightarrow> Game \<times> wire list" where
  "Update f g =
     (let g0 = g\<lparr>IsMoving := False\<rparr>;
          g1 = Update_chatBoxToggle f g0;
          (g2, chatOut) = Update_chatCursorToggle f g1;
          g3 = Update_chatCursor f g2;
          (g4, moveOut) = Update_panelsAndMovement f g3;
          g5 = Update_chatScrolling f g4;
          g6 = Update_animation g5
      in (g6, chatOut @ moveOut))"

text \<open>The engine calls \<^verbatim>\<open>Update\<close> once per tick: a run over the frames it supplies.\<close>

fun run :: "Frame list \<Rightarrow> Game \<Rightarrow> Game \<times> wire list" where
  "run [] g = (g, [])"
| "run (f # fs) g =
     (let (g1, out1) = Update f g; (g2, out2) = run fs g1 in (g2, out1 @ out2))"

subsection \<open>The chat box as drawn\<close>

datatype panic = IndexOutOfRange

text \<open>
  The loop of \<^verbatim>\<open>drawChatBox\<close> (lines 327 to 330) reads \<^verbatim>\<open>chatMessages[chatScrollOffset+i]\<close>;
  the lines it prints are collected, and an index outside the slice is the runtime panic.
\<close>

function drawChatBox_loop :: "Game \<Rightarrow> int \<Rightarrow> string list \<Rightarrow> panic + string list" where
  "drawChatBox_loop g i printed =
     (if i < maxChatLines
         \<and> i < wrap64 (int (length (chatMessages g)) - chatScrollOffset g) then
        (let k = wrap64 (chatScrollOffset g + i)
         in if 0 \<le> k \<and> k < int (length (chatMessages g))
            then drawChatBox_loop g (i + 1) (printed @ [chatMessages g ! nat k])
            else Inl IndexOutOfRange)
      else Inr printed)"
  by pat_completeness auto
termination
  by (relation "measure (\<lambda>(g, i, printed). nat (maxChatLines - i))") auto

definition drawChatBox :: "Game \<Rightarrow> panic + string list" where
  "drawChatBox g = drawChatBox_loop g 0 []"

subsection \<open>The receive loop\<close>

text \<open>
  \<^verbatim>\<open>Conn.ReadJSON(&players)\<close> decodes into a fresh nil map on every iteration and either
  fails or yields the decoded map. The loop is run over the results of the reads that have
  returned so far; with none left it is blocked in the next read.
\<close>

datatype read_result = ReadError | Decoded "string \<rightharpoonup> Player"

datatype loop_status = Blocked | Returned

fun ListenToServer :: "read_result list \<Rightarrow> Game \<Rightarrow> loop_status \<times> Game" where
  "ListenToServer [] g = (Blocked, g)"
| "ListenToServer (ReadError # rs) g = (Returned, g)"
| "ListenToServer (Decoded players # rs) g = ListenToServer rs (g\<lparr>Players := players\<rparr>)"

subsection \<open>The wire format\<close>

datatype json_value = JString string | JNumber real

type_synonym json_object = "(string \<times> json_value) list"

text \<open>\<^verbatim>\<open>WriteJSON\<close> marshals a struct field by field under the names of its tags.\<close>

fun WriteJSON :: "wire \<Rightarrow> json_object" where
  "WriteJSON (WInput i) =
     [(''type'', JString (Input_Type i)), (''amount'', JNumber (Input_Amount i))]"
| "WriteJSON (WChat c) =
     [(''username'', JString (ChatMessage_Username c)),
      (''message'', JString (ChatMessage_Message c))]"

fun isMove :: "wire \<Rightarrow> bool" where
  "isMove (WInput i) =
     (Input_Type i \<in> {''move_up'', ''move_down'', ''move_left'', ''move_right''})"
| "isMove (WChat c) = False"

text \<open>
  The chat messages among the values written, and the line that line 109 puts into the
  history for one of them: \<^verbatim>\<open>fmt.Sprintf("%s: %s", chatMessage.Username, chatMessage.Message)\<close>.
\<close>

fun isChat :: "wire \<Rightarrow> bool" where
  "isChat (WChat c) = True"
| "isChat (WInput i) = False"

fun chatLine :: "wire \<Rightarrow> string" where
  "chatLine (WChat c) = ChatMessage_Username c @ '': '' @ ChatMessage_Message c"
| "chatLine (WInput i) = []"

subsection \<open>The state built by runGame\<close>

text \<open>
  The zero \<^verbatim>\<open>time.Time\<close> is the first of January of the year 1, in nanoseconds before 1970.
  The frame table is what \<^verbatim>\<open>LoadFrames\<close> found on disk.
\<close>

definition zeroTime :: int where
  "zeroTime = - 62135596800 * 1000000000"

definition newGame :: "string \<Rightarrow> (Direction \<Rightarrow> AnimationType \<Rightarrow> image list) \<Rightarrow> Game" where
  "newGame username images =
     \<lparr>PlayerImages = images, Players = Map.empty, ClientID = ''PLAYER_ID'',
      FrameIndex = 0, AnimationTick = 0, AnimationSpeed = 0,
      AnimationSpeeds = [Idle \<mapsto> 30, Walk \<mapsto> 10],
      Direction = North, IsMoving = False, IsMapEditorActive = False,
      IsInventoryActive = False, IsChatBoxActive = False, IsChatCursorActive = False,
      lastToggleTime = zeroTime, lastCursorBlink = zeroTime, cursorVisible = False,
      chatMessages = [], currentChatMessage = [], Username = username,
      chatScrollOffset = 0, isDraggingScrollBar = False, dragStartY = 0,
      originalScrollOffset = 0\<rparr>"

definition keyFrame :: "int \<Rightarrow> Key set \<Rightarrow> Frame" where
  "keyFrame t ks = \<lparr>now = t, keys = ks, inputChars = [], mouseLeft = False,
                    cursorPosition = (0, 0), overScrollBar = False\<rparr>"

definition typeFrame :: "int \<Rightarrow> Key set \<Rightarrow> int list \<Rightarrow> Frame" where
  "typeFrame t ks cs = (keyFrame t ks)\<lparr>inputChars := cs\<rparr>"

text \<open>A frame table with three walking frames and one idle frame in every direction.\<close>

definition exampleImages :: "Direction \<Rightarrow> AnimationType \<Rightarrow> image list" where
  "exampleImages d a = (case a of Walk \<Rightarrow> [0, 1, 2] | Idle \<Rightarrow> [3])"

definition exampleGame :: Game where
  "exampleGame = newGame ''ann'' exampleImages"

subsection \<open>The panels and the intermediate states of Update\<close>

datatype Control = ChatBox | ChatCursor | MapEditor | Inventory

fun active :: "Control \<Rightarrow> Game \<Rightarrow> bool" where
  "active ChatBox g = IsChatBoxActive g"
| "active ChatCursor g = IsChatCursorActive g"
| "active MapEditor g = IsMapEditorActive g"
| "active Inventory g = IsInventoryActive g"

definition afterChatBoxToggle :: "Frame \<Rightarrow> Game \<Rightarrow> Game" where
  "afterChatBoxToggle f g = Update_chatBoxToggle f (g\<lparr>IsMoving := False\<rparr>)"

definition afterChatCursorToggle :: "Frame \<Rightarrow> Game \<Rightarrow> Game" where
  "afterChatCursorToggle f g = fst (Update_chatCursorToggle f (afterChatBoxToggle f g))"

definition afterChatCursor :: "Frame \<Rightarrow> Game \<Rightarrow> Game" where
  "afterChatCursor f g = Update_chatCursor f (afterChatCursorToggle f g)"

definition afterMovement :: "Frame \<Rightarrow> Game \<Rightarrow> Game" where
  "afterMovement f g = fst (Update_panelsAndMovement f (afterChatCursor f g))"

text \<open>
  Two projections of the state: the four panels with the time of the last accepted toggle,
  and the facing direction with the movement flag.
\<close>

definition panels :: "Game \<Rightarrow> bool \<times> bool \<times> bool \<times> bool \<times> int" where
  "panels g = (IsChatBoxActive g, IsChatCursorActive g, IsMapEditorActive g,
               IsInventoryActive g, lastToggleTime g)"

definition pose :: "Game \<Rightarrow> Direction \<times> bool" where
  "pose g = (Direction g, IsMoving g)"

text \<open>The move command of a frame: the first pressed arrow key in the order of the source.\<close>

definition moveOf :: "Frame \<Rightarrow> (string \<times> Direction) option" where
  "moveOf f =
     (if IsKeyPressed f KeyUp then Some (''move_up'', North)
      else if IsKeyPressed f KeyDown then Some (''move_down'', South)
      else if IsKeyPressed f KeyLeft then Some (''move_left'', West)
      else if IsKeyPressed f KeyRight then Some (''move_right'', East)
      else None)"

subsection \<open>Example inputs\<close>

definition playersA :: "string \<rightharpoonup> Player" where
  "playersA = [''p1'' \<mapsto> \<lparr>Player_ID = ''p1'', Player_X = 1, Player_Y = 2\<rparr>,
               ''p2'' \<mapsto> \<lparr>Player_ID = ''p2'', Player_X = 3, Player_Y = 4\<rparr>]"

definition playersB :: "string \<rightharpoonup> Player" where
  "playersB = [''p2'' \<mapsto> \<lparr>Player_ID = ''p2'', Player_X = 5, Player_Y = 4\<rparr>]"

text \<open>
  Between two states of one step: no panel and no time stamp has changed, or a toggle was
  accepted, which stores the time of the frame and needs the debounce time to have passed.
\<close>

definition toggleStep :: "Frame \<Rightarrow> Game \<Rightarrow> Game \<Rightarrow> bool" where
  "toggleStep f g g' =
     (panels g' = panels g
      \<or> (lastToggleTime g' = now f \<and> debounceTime < Sub (now f) (lastToggleTime g)))"

text \<open>
  A session that opens the chat box and then, eleven times, gives the cursor the focus while
  typing \<^verbatim>\<open>hi\<close> and presses Enter again 300 ms later.
\<close>

definition sendFrames :: "Frame list" where
  "sendFrames =
     keyFrame 0 {KeyTab}
     # concat (map (\<lambda>k. [typeFrame (600 * k * Millisecond) {KeyEnter} [104, 105],
                          keyFrame ((600 * k + 300) * Millisecond) {KeyEnter}])
                [1, 2, 3, 4, 5, 6, 7, 8, 9, 10, 11])"

text \<open>The chat box is open, the cursor has the focus and \<^verbatim>\<open>hi\<close> has been typed.\<close>

definition chatAndMoveGame :: Game where
  "chatAndMoveGame =
     fst (run [keyFrame 0 {KeyTab}, typeFrame (300 * Millisecond) {KeyEnter} [104, 105]]
            exampleGame)"

text \<open>Ten frames, 16 ms apart, with the Up key held.\<close>

definition walkFrames :: "Frame list" where
  "walkFrames = map (\<lambda>k. keyFrame (16 * k * Millisecond) {KeyUp}) [1, 2, 3, 4, 5, 6, 7, 8, 9, 10]"

text \<open>
  The chat box is open, the cursor has the focus and 99 letters \<^verbatim>\<open>a\<close> have been typed.
\<close>

definition typingGame :: Game where
  "typingGame =
     fst (run [keyFrame 0 {KeyTab},
               typeFrame (300 * Millisecond) {KeyEnter} (replicate 99 97)] exampleGame)"

section \<open>Facts about the blocks of Update\<close>

lemma Update_unfold:
  "Update f g =
     (Update_animation (Update_chatScrolling f (afterMovement f g)),
      snd (Update_chatCursorToggle f (afterChatBoxToggle f g))
        @ snd (Update_panelsAndMovement f (afterChatCursor f g)))"
  by (simp add: Update_def afterMovement_def afterChatCursor_def afterChatCursorToggle_def
      afterChatBoxToggle_def Let_def split_beta)

lemma debounceTime_pos: "0 < debounceTime"
  by (simp add: debounceTime_def Millisecond_def)

lemma Sub_self: "Sub t t = 0"
  by (simp add: Sub_def maxDuration_def minDuration_def)

lemma Sub_le_diff: "0 < Sub t u \<Longrightarrow> Sub t u \<le> t - u"
  by (simp add: Sub_def maxDuration_def minDuration_def split: if_splits)

lemma active_panels: "panels g' = panels g \<Longrightarrow> active c g' = active c g"
  by (cases c) (simp_all add: panels_def)

subsection \<open>What the later blocks leave alone\<close>

lemma updateFrameIndex_keeps:
  "panels (updateFrameIndex g) = panels g"
  "pose (updateFrameIndex g) = pose g"
  "chatMessages (updateFrameIndex g) = chatMessages g"
  by (simp_all add: updateFrameIndex_def Let_def panels_def pose_def)

lemma advanceTick_keeps:
  "panels (advanceTick g) = panels g"
  "pose (advanceTick g) = pose g"
  "chatMessages (advanceTick g) = chatMessages g"
  by (simp_all add: advanceTick_def panels_def pose_def)

lemma zeroTick_keeps:
  "panels (g\<lparr>AnimationTick := 0\<rparr>) = panels g"
  "pose (g\<lparr>AnimationTick := 0\<rparr>) = pose g"
  by (simp_all add: panels_def pose_def)

lemma Update_animation_keeps:
  "panels (Update_animation g) = panels g"
  "pose (Update_animation g) = pose g"
  "chatMessages (Update_animation g) = chatMessages g"
  by (simp_all add: Update_animation_def updateFrameIndex_keeps advanceTick_keeps zeroTick_keeps)

lemma dragScrollBar_keeps:
  "panels (dragScrollBar f g) = panels g"
  "pose (dragScrollBar f g) = pose g"
  "chatMessages (dragScrollBar f g) = chatMessages g"
  by (simp_all add: dragScrollBar_def panels_def pose_def)

lemma pageKeys_keeps:
  "panels (pageKeys f g) = panels g"
  "pose (pageKeys f g) = pose g"
  "chatMessages (pageKeys f g) = chatMessages g"
  by (simp_all add: pageKeys_def panels_def pose_def)

lemma Update_chatScrolling_keeps:
  "panels (Update_chatScrolling f g) = panels g"
  "pose (Update_chatScrolling f g) = pose g"
  "chatMessages (Update_chatScrolling f g) = chatMessages g"
  by (simp_all add: Update_chatScrolling_def pageKeys_keeps dragScrollBar_keeps)

lemma handleChatInput_keeps:
  "panels (handleChatInput f g) = panels g"
  "chatMessages (handleChatInput f g) = chatMessages g"
  by (simp_all add: handleChatInput_def Let_def panels_def)

lemma blinkCursor_keeps:
  "panels (blinkCursor f g) = panels g"
  "chatMessages (blinkCursor f g) = chatMessages g"
  by (simp_all add: blinkCursor_def panels_def)

lemma Update_chatCursor_keeps:
  "panels (Update_chatCursor f g) = panels g"
  "chatMessages (Update_chatCursor f g) = chatMessages g"
  by (simp_all add: Update_chatCursor_def handleChatInput_keeps blinkCursor_keeps)

lemma setDirection_keeps:
  "panels (setDirection d g) = panels g"
  "Direction (setDirection d g) = d"
  "chatMessages (setDirection d g) = chatMessages g"
  by (simp_all add: setDirection_def panels_def)

lemma Update_state:
  "panels (fst (Update f g)) = panels (afterMovement f g)"
  "pose (fst (Update f g)) = pose (afterMovement f g)"
  "chatMessages (fst (Update f g)) = chatMessages (afterMovement f g)"
  by (simp_all add: Update_unfold Update_animation_keeps Update_chatScrolling_keeps)

section \<open>The receive loop\<close>

lemma ListenToServer_append:
  "ReadError \<notin> set rs \<Longrightarrow>
   ListenToServer (rs @ rest) g = ListenToServer rest (snd (ListenToServer rs g))"
proof (induction rs arbitrary: g)
  case Nil
  then show ?case by simp
next
  case (Cons r rs)
  then show ?case by (cases r) simp_all
qed

lemma ListenToServer_Blocked:
  "ReadError \<notin> set rs \<Longrightarrow> fst (ListenToServer rs g) = Blocked"
proof (induction rs arbitrary: g)
  case Nil
  then show ?case by simp
next
  case (Cons r rs)
  then show ?case by (cases r) simp_all
qed

lemma ListenToServer_Players_last:
  "ReadError \<notin> set rs \<Longrightarrow>
   snd (ListenToServer (rs @ [Decoded players]) g) = g\<lparr>Players := players\<rparr>"
proof (induction rs arbitrary: g)
  case Nil
  then show ?case by simp
next
  case (Cons r rs)
  then show ?case by (cases r) simp_all
qed

text \<open>
  Claim C5. After a run of successful reads, the loop is waiting for the next message, the
  player map is exactly the map decoded last, whatever it held before, and nothing else of
  the state has changed.
\<close>

theorem full_state_replaces_players:
  assumes "ReadError \<notin> set rs"
  shows "ListenToServer (rs @ [Decoded players]) g = (Blocked, g\<lparr>Players := players\<rparr>)
         \<and> Players (snd (ListenToServer (rs @ [Decoded players]) g)) = players"
proof -
  have "ReadError \<notin> set (rs @ [Decoded players])" using assms by simp
  then have "fst (ListenToServer (rs @ [Decoded players]) g) = Blocked"
    by (rule ListenToServer_Blocked)
  moreover note ListenToServer_Players_last [OF assms, of players g]
  ultimately show ?thesis
    by (simp add: prod_eq_iff)
qed

theorem full_state_replaces_players_witness:
  "ReadError \<notin> set [Decoded playersA]
   \<and> Players (snd (ListenToServer ([Decoded playersA] @ [Decoded playersB]) exampleGame))
       = playersB
   \<and> Players (snd (ListenToServer ([Decoded playersA] @ [Decoded playersB]) exampleGame))
       ''p1'' = None"
  using full_state_replaces_players [of "[Decoded playersA]" playersB exampleGame]
  by (simp add: playersB_def)

text \<open>
  Claim C6. A failed read makes the loop return: the reads that would follow are never
  made, and the state, the player map included, is the one left by the reads before the
  failure.
\<close>

theorem decode_error_ends_loop:
  assumes "ReadError \<notin> set rs"
  shows "ListenToServer (rs @ ReadError # rest) g = (Returned, snd (ListenToServer rs g))"
  using ListenToServer_append [OF assms, of "ReadError # rest" g] by simp

theorem decode_error_ends_loop_witness:
  "ReadError \<notin> set [Decoded playersA]
   \<and> fst (ListenToServer ([Decoded playersA] @ ReadError # [Decoded playersB]) exampleGame)
       = Returned
   \<and> Players (snd (ListenToServer ([Decoded playersA] @ ReadError # [Decoded playersB])
                     exampleGame)) = playersA"
  using decode_error_ends_loop [of "[Decoded playersA]" "[Decoded playersB]" exampleGame]
  by simp

section \<open>The chat scroll offset\<close>

text \<open>
  Claim C9 fails on the code. In the first frame of a session the player presses Tab and
  PageDown: the chat box opens, line 195 sets the scroll offset to
  \<^verbatim>\<open>min(len(chatMessages) - maxChatLines, chatScrollOffset + 1)\<close>, which is \<open>- 10\<close> for
  an empty history, and the loop of \<^verbatim>\<open>drawChatBox\<close> then reads \<^verbatim>\<open>chatMessages[-10]\<close>.
\<close>

theorem scroll_offset_negative_after_PageDown:
  "chatScrollOffset (fst (Update (keyFrame 0 {KeyTab, KeyPageDown}) exampleGame)) = - 10
   \<and> IsChatBoxActive (fst (Update (keyFrame 0 {KeyTab, KeyPageDown}) exampleGame))
   \<and> drawChatBox (fst (Update (keyFrame 0 {KeyTab, KeyPageDown}) exampleGame))
       = Inl IndexOutOfRange"
  by code_simp

section \<open>Debouncing\<close>

lemma toggleStep_refl: "panels g' = panels g \<Longrightarrow> toggleStep f g g'"
  by (simp add: toggleStep_def)

lemma toggleStep_trans:
  assumes "toggleStep f g g1" and "toggleStep f g1 g2"
  shows "toggleStep f g g2"
proof (cases "panels g1 = panels g")
  case True
  then have "lastToggleTime g1 = lastToggleTime g" by (simp add: panels_def)
  with True assms(2) show ?thesis by (auto simp: toggleStep_def)
next
  case False
  with assms(1) have acc: "lastToggleTime g1 = now f"
    "debounceTime < Sub (now f) (lastToggleTime g)"
    by (auto simp: toggleStep_def)
  show ?thesis
  proof (cases "panels g2 = panels g1")
    case True
    then have "lastToggleTime g2 = lastToggleTime g1" by (simp add: panels_def)
    with acc show ?thesis by (simp add: toggleStep_def)
  next
    case False
    with assms(2) have "debounceTime < Sub (now f) (lastToggleTime g1)"
      by (auto simp: toggleStep_def)
    with acc(1) debounceTime_pos show ?thesis by (simp add: Sub_self)
  qed
qed

lemma Update_chatBoxToggle_step: "toggleStep f g (Update_chatBoxToggle f g)"
  by (simp add: toggleStep_def Update_chatBoxToggle_def Let_def panels_def)

lemma scrollToBottom_keeps:
  "panels (scrollToBottom g) = panels g"
  "chatMessages (scrollToBottom g) = chatMessages g"
  by (simp_all add: scrollToBottom_def panels_def)

lemma sendChat_state:
  "lastToggleTime (fst (sendChat g)) = lastToggleTime g"
  "IsChatCursorActive (fst (sendChat g)) = IsChatCursorActive g"
  "chatMessages (fst (sendChat g)) = chatMessages g @ [Username g @ '': '' @ currentChatMessage g]"
  "snd (sendChat g) = [WChat \<lparr>ChatMessage_Username = Username g,
                              ChatMessage_Message = currentChatMessage g\<rparr>]"
  by (simp_all add: sendChat_def scrollToBottom_def)

lemma Update_chatCursorToggle_step:
  "toggleStep f g (fst (Update_chatCursorToggle f g))"
  by (simp add: toggleStep_def Update_chatCursorToggle_def sendChat_state toggleChatCursor_def)

lemma toggleMapEditor_step: "toggleStep f g (toggleMapEditor f g)"
  by (simp add: toggleStep_def toggleMapEditor_def panels_def)

lemma toggleInventory_step: "toggleStep f g (toggleInventory f g)"
  by (simp add: toggleStep_def toggleInventory_def panels_def)

lemma sendMove_keeps:
  "panels (fst (sendMove t d g)) = panels g"
  "pose (fst (sendMove t d g)) = (d, True)"
  "chatMessages (fst (sendMove t d g)) = chatMessages g"
  "snd (sendMove t d g) = [WInput \<lparr>Input_Type = t, Input_Amount = 2\<rparr>]"
  by (simp_all add: sendMove_def setDirection_def panels_def pose_def)

lemma arrowKeys_keeps:
  "panels (fst (arrowKeys f g)) = panels g"
  "chatMessages (fst (arrowKeys f g)) = chatMessages g"
  by (simp_all add: arrowKeys_def sendMove_keeps)

lemma Update_panelsAndMovement_step:
  "toggleStep f g (fst (Update_panelsAndMovement f g))"
proof (cases "IsChatCursorActive g")
  case True
  then show ?thesis by (simp add: Update_panelsAndMovement_def toggleStep_refl)
next
  case False
  have "toggleStep f g (toggleInventory f (toggleMapEditor f g))"
    using toggleMapEditor_step toggleInventory_step by (rule toggleStep_trans)
  moreover have "toggleStep f (toggleInventory f (toggleMapEditor f g))
                   (fst (arrowKeys f (toggleInventory f (toggleMapEditor f g))))"
    by (simp add: toggleStep_refl arrowKeys_keeps)
  ultimately show ?thesis
    using False by (simp add: Update_panelsAndMovement_def toggleStep_trans)
qed

lemma afterMovement_step: "toggleStep f g (afterMovement f g)"
proof -
  have 0: "toggleStep f g (g\<lparr>IsMoving := False\<rparr>)"
    by (simp add: toggleStep_def panels_def)
  have 1: "toggleStep f g (afterChatBoxToggle f g)"
    unfolding afterChatBoxToggle_def
    using 0 Update_chatBoxToggle_step by (rule toggleStep_trans)
  have 2: "toggleStep f g (afterChatCursorToggle f g)"
    unfolding afterChatCursorToggle_def
    using 1 Update_chatCursorToggle_step by (rule toggleStep_trans)
  have 3: "toggleStep f g (afterChatCursor f g)"
    unfolding afterChatCursor_def
    using 2 by (rule toggleStep_trans) (simp add: toggleStep_refl Update_chatCursor_keeps)
  show ?thesis
    unfolding afterMovement_def
    using 3 Update_panelsAndMovement_step by (rule toggleStep_trans)
qed

lemma Update_step: "toggleStep f g (fst (Update f g))"
  using afterMovement_step
  by (rule toggleStep_trans) (simp add: toggleStep_refl Update_state)

lemma toggled_accepted:
  assumes "active c (fst (Update f g)) \<noteq> active c g"
  shows "lastToggleTime (fst (Update f g)) = now f"
    and "debounceTime < Sub (now f) (lastToggleTime g)"
  using Update_step [of f g] assms active_panels [of "fst (Update f g)" g c]
  by (auto simp: toggleStep_def)

lemma not_accepted_within_debounce:
  assumes "Sub (now f) (lastToggleTime g) \<le> debounceTime"
  shows "active c (fst (Update f g)) = active c g"
  using Update_step [of f g] assms active_panels [of "fst (Update f g)" g c]
  by (auto simp: toggleStep_def)

lemma Update_lastToggleTime_mono: "lastToggleTime g \<le> lastToggleTime (fst (Update f g))"
proof (cases "panels (fst (Update f g)) = panels g")
  case True
  then show ?thesis by (simp add: panels_def)
next
  case False
  with Update_step [of f g] have acc: "lastToggleTime (fst (Update f g)) = now f"
    "debounceTime < Sub (now f) (lastToggleTime g)"
    by (auto simp: toggleStep_def)
  from acc(2) debounceTime_pos have "0 < Sub (now f) (lastToggleTime g)" by linarith
  from Sub_le_diff [OF this] this acc(1) show ?thesis by linarith
qed

lemma run_lastToggleTime_mono: "lastToggleTime g \<le> lastToggleTime (fst (run fs g))"
proof (induction fs arbitrary: g)
  case Nil
  show ?case by simp
next
  case (Cons f fs)
  have "lastToggleTime g \<le> lastToggleTime (fst (Update f g))"
    by (rule Update_lastToggleTime_mono)
  also have "\<dots> \<le> lastToggleTime (fst (run fs (fst (Update f g))))"
    by (rule Cons.IH)
  finally show ?case by (simp add: split_beta)
qed

text \<open>
  Claim C8. The four panels share one time stamp, \<^verbatim>\<open>lastToggleTime\<close>. A panel changes
  only in a step that accepts a toggle, such a step stores its own time, and it is accepted
  only when more than \<open>debounceTime\<close> has passed since the stored time. So whenever the
  same panel changes in two steps of a run, whatever happens between them, the second is
  more than \<open>debounceTime\<close> later than the first; and a step at most \<open>debounceTime\<close>
  after the stored time changes no panel, whichever keys are held.
\<close>

theorem toggles_debounced:
  "(active c (fst (Update f1 g)) \<noteq> active c g
    \<and> active c (fst (Update f2 (fst (run fs (fst (Update f1 g))))))
        \<noteq> active c (fst (run fs (fst (Update f1 g))))
    \<longrightarrow> debounceTime < now f2 - now f1)
   \<and> (Sub (now f) (lastToggleTime h) \<le> debounceTime
      \<longrightarrow> active c (fst (Update f h)) = active c h)"
proof (intro conjI impI)
  assume a: "active c (fst (Update f1 g)) \<noteq> active c g
    \<and> active c (fst (Update f2 (fst (run fs (fst (Update f1 g))))))
        \<noteq> active c (fst (run fs (fst (Update f1 g))))"
  define g1 where "g1 = fst (Update f1 g)"
  define g2 where "g2 = fst (run fs g1)"
  from a have first: "lastToggleTime g1 = now f1"
    unfolding g1_def by (intro toggled_accepted(1) [of c]) simp
  from a have second: "debounceTime < Sub (now f2) (lastToggleTime g2)"
    unfolding g2_def g1_def by (intro toggled_accepted(2) [of c]) simp
  with debounceTime_pos have "0 < Sub (now f2) (lastToggleTime g2)" by linarith
  from Sub_le_diff [OF this] second
  have "debounceTime < now f2 - lastToggleTime g2" by linarith
  moreover have "lastToggleTime g1 \<le> lastToggleTime g2"
    unfolding g2_def by (rule run_lastToggleTime_mono)
  ultimately show "debounceTime < now f2 - now f1" using first by linarith
next
  assume "Sub (now f) (lastToggleTime h) \<le> debounceTime"
  then show "active c (fst (Update f h)) = active c h"
    by (rule not_accepted_within_debounce)
qed

theorem toggles_debounced_witness:
  "active ChatBox (fst (Update (keyFrame 0 {KeyTab}) exampleGame)) \<noteq> active ChatBox exampleGame
   \<and> active ChatBox (fst (Update (keyFrame (300 * Millisecond) {KeyTab})
          (fst (run [keyFrame (100 * Millisecond) {KeyTab}]
             (fst (Update (keyFrame 0 {KeyTab}) exampleGame))))))
       \<noteq> active ChatBox (fst (run [keyFrame (100 * Millisecond) {KeyTab}]
             (fst (Update (keyFrame 0 {KeyTab}) exampleGame))))
   \<and> debounceTime < now (keyFrame (300 * Millisecond) {KeyTab}) - now (keyFrame 0 {KeyTab})
   \<and> Sub (now (keyFrame (100 * Millisecond) {KeyTab}))
         (lastToggleTime (fst (Update (keyFrame 0 {KeyTab}) exampleGame))) \<le> debounceTime
   \<and> active ChatBox (fst (Update (keyFrame (100 * Millisecond) {KeyTab})
          (fst (Update (keyFrame 0 {KeyTab}) exampleGame))))
       = active ChatBox (fst (Update (keyFrame 0 {KeyTab}) exampleGame))"
proof -
  have h1: "active ChatBox (fst (Update (keyFrame 0 {KeyTab}) exampleGame))
              \<noteq> active ChatBox exampleGame
    \<and> active ChatBox (fst (Update (keyFrame (300 * Millisecond) {KeyTab})
          (fst (run [keyFrame (100 * Millisecond) {KeyTab}]
             (fst (Update (keyFrame 0 {KeyTab}) exampleGame))))))
       \<noteq> active ChatBox (fst (run [keyFrame (100 * Millisecond) {KeyTab}]
             (fst (Update (keyFrame 0 {KeyTab}) exampleGame))))"
    by code_simp
  have h2: "Sub (now (keyFrame (100 * Millisecond) {KeyTab}))
         (lastToggleTime (fst (Update (keyFrame 0 {KeyTab}) exampleGame))) \<le> debounceTime"
    by code_simp
  from h1 h2
    toggles_debounced [of ChatBox "keyFrame 0 {KeyTab}" exampleGame
      "keyFrame (300 * Millisecond) {KeyTab}" "[keyFrame (100 * Millisecond) {KeyTab}]"
      "keyFrame (100 * Millisecond) {KeyTab}" "fst (Update (keyFrame 0 {KeyTab}) exampleGame)"]
  show ?thesis by blast
qed

section \<open>What Update writes\<close>

lemma cursor_panels: "panels g' = panels g \<Longrightarrow> IsChatCursorActive g' = IsChatCursorActive g"
  by (simp add: panels_def)

lemma Update_chatCursorToggle_out:
  "snd (Update_chatCursorToggle f g) = []
   \<or> snd (Update_chatCursorToggle f g)
       = [WChat \<lparr>ChatMessage_Username = Username g,
                  ChatMessage_Message = currentChatMessage g\<rparr>]"
  by (simp add: Update_chatCursorToggle_def sendChat_state toggleChatCursor_def)

lemma Update_chatCursorToggle_no_move:
  "filter isMove (snd (Update_chatCursorToggle f g)) = []"
  using Update_chatCursorToggle_out [of f g] by auto

lemma Update_chatCursorToggle_silent:
  "IsChatCursorActive (fst (Update_chatCursorToggle f g)) \<Longrightarrow>
   snd (Update_chatCursorToggle f g) = []"
  by (simp add: Update_chatCursorToggle_def sendChat_state toggleChatCursor_def
      split: if_splits)

lemma arrowKeys_out:
  "snd (arrowKeys f g)
     = (case moveOf f of None \<Rightarrow> []
        | Some (t, d) \<Rightarrow> [WInput \<lparr>Input_Type = t, Input_Amount = 2\<rparr>])"
  by (simp add: arrowKeys_def moveOf_def sendMove_keeps)

lemma arrowKeys_pose:
  "pose (fst (arrowKeys f g))
     = (case moveOf f of None \<Rightarrow> pose g | Some (t, d) \<Rightarrow> (d, True))"
  by (simp add: arrowKeys_def moveOf_def sendMove_keeps)

lemma moveOf_type:
  "moveOf f = Some (t, d) \<Longrightarrow>
   t \<in> {''move_up'', ''move_down'', ''move_left'', ''move_right''}"
  by (auto simp: moveOf_def split: if_splits)

lemma toggleMapEditor_keeps:
  "IsChatCursorActive (toggleMapEditor f g) = IsChatCursorActive g"
  "pose (toggleMapEditor f g) = pose g"
  "chatMessages (toggleMapEditor f g) = chatMessages g"
  by (simp_all add: toggleMapEditor_def pose_def)

lemma toggleInventory_keeps:
  "IsChatCursorActive (toggleInventory f g) = IsChatCursorActive g"
  "pose (toggleInventory f g) = pose g"
  "chatMessages (toggleInventory f g) = chatMessages g"
  by (simp_all add: toggleInventory_def pose_def)

lemma Update_panelsAndMovement_cursor:
  "IsChatCursorActive (fst (Update_panelsAndMovement f g)) = IsChatCursorActive g"
  by (simp add: Update_panelsAndMovement_def cursor_panels [OF arrowKeys_keeps(1)]
      toggleInventory_keeps toggleMapEditor_keeps)

lemma Update_panelsAndMovement_out:
  "snd (Update_panelsAndMovement f g)
     = (if IsChatCursorActive g then []
        else case moveOf f of None \<Rightarrow> []
             | Some (t, d) \<Rightarrow> [WInput \<lparr>Input_Type = t, Input_Amount = 2\<rparr>])"
  by (simp add: Update_panelsAndMovement_def arrowKeys_out)

lemma Update_panelsAndMovement_pose:
  "\<not> IsChatCursorActive g \<Longrightarrow>
   pose (fst (Update_panelsAndMovement f g))
     = (case moveOf f of None \<Rightarrow> pose g | Some (t, d) \<Rightarrow> (d, True))"
  by (simp add: Update_panelsAndMovement_def arrowKeys_pose toggleInventory_keeps
      toggleMapEditor_keeps split: option.split)

lemma Update_panelsAndMovement_chatMessages:
  "chatMessages (fst (Update_panelsAndMovement f g)) = chatMessages g"
  by (simp add: Update_panelsAndMovement_def arrowKeys_keeps toggleInventory_keeps
      toggleMapEditor_keeps)

lemma Update_cursor:
  "IsChatCursorActive (fst (Update f g)) = IsChatCursorActive (afterChatCursor f g)"
  by (simp add: cursor_panels [OF Update_state(1)] afterMovement_def
      Update_panelsAndMovement_cursor)

lemma Update_out:
  "snd (Update f g)
     = snd (Update_chatCursorToggle f (afterChatBoxToggle f g))
       @ (if IsChatCursorActive (fst (Update f g)) then []
          else case moveOf f of None \<Rightarrow> []
               | Some (t, d) \<Rightarrow> [WInput \<lparr>Input_Type = t, Input_Amount = 2\<rparr>])"
  unfolding Update_cursor
  by (simp add: Update_unfold Update_panelsAndMovement_out)

lemma isMove_moveOf:
  "filter isMove (case moveOf f of None \<Rightarrow> []
        | Some (t, d) \<Rightarrow> [WInput \<lparr>Input_Type = t, Input_Amount = 2\<rparr>])
   = (case moveOf f of None \<Rightarrow> []
        | Some (t, d) \<Rightarrow> [WInput \<lparr>Input_Type = t, Input_Amount = 2\<rparr>])"
  by (simp add: moveOf_def)

lemma Update_moves:
  "filter isMove (snd (Update f g))
     = (if IsChatCursorActive (fst (Update f g)) then []
        else case moveOf f of None \<Rightarrow> []
             | Some (t, d) \<Rightarrow> [WInput \<lparr>Input_Type = t, Input_Amount = 2\<rparr>])"
  by (subst Update_out) (simp add: Update_chatCursorToggle_no_move isMove_moveOf)

lemma afterChatCursor_pose:
  "pose (afterChatCursor f g) = (Direction g, False)"
  by (simp add: afterChatCursor_def afterChatCursorToggle_def afterChatBoxToggle_def
      Update_chatCursor_def Update_chatCursorToggle_def Update_chatBoxToggle_def Let_def
      blinkCursor_def handleChatInput_def sendChat_def scrollToBottom_def toggleChatCursor_def
      pose_def)

text \<open>
  Claim C2 fails on the code: the arrow keys are guarded by the chat cursor alone (line
  131), not by the map editor, the inventory or the chat box. With the map editor open, the
  Up key still sends \<^verbatim>\<open>move_up\<close>.
\<close>

theorem move_sent_with_map_editor_open:
  "IsMapEditorActive (fst (run [keyFrame 0 {KeyM}] exampleGame))
   \<and> IsMapEditorActive
       (fst (run [keyFrame 0 {KeyM}, keyFrame (16 * Millisecond) {KeyUp}] exampleGame))
   \<and> snd (run [keyFrame 0 {KeyM}, keyFrame (16 * Millisecond) {KeyUp}] exampleGame)
       = [WInput \<lparr>Input_Type = ''move_up'', Input_Amount = 2\<rparr>]"
  by code_simp

text \<open>
  Claim C2 as amended: a step that leaves the chat cursor with the focus (the state in which
  line 131 is reached, since nothing after it changes the flag) writes no move command,
  whichever arrow keys are pressed.
\<close>

theorem move_suppressed_by_chat_cursor:
  "IsChatCursorActive (fst (Update f g)) \<Longrightarrow> filter isMove (snd (Update f g)) = []"
  by (simp add: Update_moves)

theorem move_suppressed_by_chat_cursor_witness:
  "IsChatCursorActive
     (fst (Update (keyFrame (316 * Millisecond) {KeyUp})
        (fst (run [keyFrame 0 {KeyTab}, keyFrame (300 * Millisecond) {KeyEnter}] exampleGame))))
   \<and> filter isMove
       (snd (Update (keyFrame (316 * Millisecond) {KeyUp})
          (fst (run [keyFrame 0 {KeyTab}, keyFrame (300 * Millisecond) {KeyEnter}]
             exampleGame)))) = []"
proof -
  have h: "IsChatCursorActive
     (fst (Update (keyFrame (316 * Millisecond) {KeyUp})
        (fst (run [keyFrame 0 {KeyTab}, keyFrame (300 * Millisecond) {KeyEnter}] exampleGame))))"
    by code_simp
  from h move_suppressed_by_chat_cursor [OF h] show ?thesis by simp
qed

text \<open>
  Claim C10. In a step that leaves the chat cursor without the focus, the move commands
  written are exactly one, for the first pressed key among Up, Down, Left, Right in this
  order, or none when no arrow key is pressed; the step ends facing the direction of that
  command with \<^verbatim>\<open>IsMoving\<close> set, and with \<^verbatim>\<open>IsMoving\<close> cleared and the direction kept
  when nothing was sent.
\<close>

theorem one_move_by_priority:
  assumes "\<not> IsChatCursorActive (fst (Update f g))"
  shows "filter isMove (snd (Update f g))
           = (if IsKeyPressed f KeyUp then [WInput \<lparr>Input_Type = ''move_up'', Input_Amount = 2\<rparr>]
              else if IsKeyPressed f KeyDown
                then [WInput \<lparr>Input_Type = ''move_down'', Input_Amount = 2\<rparr>]
              else if IsKeyPressed f KeyLeft
                then [WInput \<lparr>Input_Type = ''move_left'', Input_Amount = 2\<rparr>]
              else if IsKeyPressed f KeyRight
                then [WInput \<lparr>Input_Type = ''move_right'', Input_Amount = 2\<rparr>]
              else [])
         \<and> length (filter isMove (snd (Update f g))) \<le> 1
         \<and> (Direction (fst (Update f g)), IsMoving (fst (Update f g)))
           = (if IsKeyPressed f KeyUp then (North, True)
              else if IsKeyPressed f KeyDown then (South, True)
              else if IsKeyPressed f KeyLeft then (West, True)
              else if IsKeyPressed f KeyRight then (East, True)
              else (Direction g, False))"
proof -
  from assms have inactive: "\<not> IsChatCursorActive (afterChatCursor f g)"
    by (simp add: Update_cursor)
  have "pose (fst (Update f g))
          = (case moveOf f of None \<Rightarrow> (Direction g, False) | Some (t, d) \<Rightarrow> (d, True))"
    by (simp add: Update_state afterMovement_def Update_panelsAndMovement_pose [OF inactive]
        afterChatCursor_pose split: option.split)
  then have "(Direction (fst (Update f g)), IsMoving (fst (Update f g)))
           = (if IsKeyPressed f KeyUp then (North, True)
              else if IsKeyPressed f KeyDown then (South, True)
              else if IsKeyPressed f KeyLeft then (West, True)
              else if IsKeyPressed f KeyRight then (East, True)
              else (Direction g, False))"
    by (simp add: pose_def moveOf_def)
  moreover have "filter isMove (snd (Update f g))
           = (if IsKeyPressed f KeyUp then [WInput \<lparr>Input_Type = ''move_up'', Input_Amount = 2\<rparr>]
              else if IsKeyPressed f KeyDown
                then [WInput \<lparr>Input_Type = ''move_down'', Input_Amount = 2\<rparr>]
              else if IsKeyPressed f KeyLeft
                then [WInput \<lparr>Input_Type = ''move_left'', Input_Amount = 2\<rparr>]
              else if IsKeyPressed f KeyRight
                then [WInput \<lparr>Input_Type = ''move_right'', Input_Amount = 2\<rparr>]
              else [])"
    using assms by (simp add: Update_moves moveOf_def)
  ultimately show ?thesis by simp
qed

theorem one_move_by_priority_witness:
  "\<not> IsChatCursorActive (fst (Update (keyFrame 0 {KeyDown, KeyLeft, KeyRight}) exampleGame))
   \<and> filter isMove (snd (Update (keyFrame 0 {KeyDown, KeyLeft, KeyRight}) exampleGame))
       = [WInput \<lparr>Input_Type = ''move_down'', Input_Amount = 2\<rparr>]
   \<and> Direction (fst (Update (keyFrame 0 {KeyDown, KeyLeft, KeyRight}) exampleGame)) = South
   \<and> IsMoving (fst (Update (keyFrame 0 {KeyDown, KeyLeft, KeyRight}) exampleGame))"
proof -
  have h: "\<not> IsChatCursorActive
              (fst (Update (keyFrame 0 {KeyDown, KeyLeft, KeyRight}) exampleGame))"
    by code_simp
  from h one_move_by_priority [OF h] show ?thesis
    by (simp add: IsKeyPressed_def keyFrame_def)
qed

section \<open>The chat history\<close>

lemma afterChatBoxToggle_keeps:
  "chatMessages (afterChatBoxToggle f g) = chatMessages g"
  "Username (afterChatBoxToggle f g) = Username g"
  "currentChatMessage (afterChatBoxToggle f g) = currentChatMessage g"
  by (simp_all add: afterChatBoxToggle_def Update_chatBoxToggle_def Let_def)

lemma Update_chatCursorToggle_chatMessages:
  "chatMessages (fst (Update_chatCursorToggle f g)) = chatMessages g
   \<or> chatMessages (fst (Update_chatCursorToggle f g))
       = chatMessages g @ [Username g @ '': '' @ currentChatMessage g]"
  by (simp add: Update_chatCursorToggle_def sendChat_state toggleChatCursor_def)

lemma Update_chatMessages:
  "chatMessages (fst (Update f g))
     = chatMessages (fst (Update_chatCursorToggle f (afterChatBoxToggle f g)))"
  by (simp add: Update_state afterMovement_def Update_panelsAndMovement_chatMessages
      afterChatCursor_def Update_chatCursor_keeps afterChatCursorToggle_def)

lemma drawChatBox_loop_length:
  "drawChatBox_loop g i printed = Inr ls \<Longrightarrow> i \<le> maxChatLines \<Longrightarrow>
   int (length ls) \<le> int (length printed) + (maxChatLines - i)"
proof (induction g i printed rule: drawChatBox_loop.induct)
  case (1 g i printed)
  show ?case
  proof (cases "i < maxChatLines
         \<and> i < wrap64 (int (length (chatMessages g)) - chatScrollOffset g)")
    case False
    with "1.prems" show ?thesis
      by (subst (asm) drawChatBox_loop.simps) auto
  next
    case True
    show ?thesis
    proof (cases "0 \<le> wrap64 (chatScrollOffset g + i)
        \<and> wrap64 (chatScrollOffset g + i) < int (length (chatMessages g))")
      case False
      with True "1.prems" show ?thesis
        by (subst (asm) drawChatBox_loop.simps) (auto simp: Let_def)
    next
      case inb: True
      from True inb "1.prems"(1)
      have "drawChatBox_loop g (i + 1)
              (printed @ [chatMessages g ! nat (wrap64 (chatScrollOffset g + i))]) = Inr ls"
        by (subst (asm) drawChatBox_loop.simps) (simp add: Let_def)
      from "1.IH" [OF True refl inb this] True
      show ?thesis by simp
    qed
  qed
qed

text \<open>
  Claim C1 fails on the code: line 109 appends and nothing removes. After eleven messages
  have been sent the history holds eleven entries, the first one still among them.
\<close>

theorem chat_history_exceeds_cap:
  "length (chatMessages (fst (run sendFrames exampleGame))) = 11
   \<and> \<not> int (length (chatMessages (fst (run sendFrames exampleGame)))) \<le> maxChatLines
   \<and> hd (chatMessages (fst (run sendFrames exampleGame))) = ''ann: hi''"
  by code_simp

lemma Update_chatCursorToggle_sent:
  "(snd (Update_chatCursorToggle f g)
      = [WChat \<lparr>ChatMessage_Username = Username g,
                 ChatMessage_Message = currentChatMessage g\<rparr>]
    \<and> chatMessages (fst (Update_chatCursorToggle f g))
        = chatMessages g @ [Username g @ '': '' @ currentChatMessage g])
   \<or> (snd (Update_chatCursorToggle f g) = []
      \<and> chatMessages (fst (Update_chatCursorToggle f g)) = chatMessages g)"
  by (simp add: Update_chatCursorToggle_def sendChat_state toggleChatCursor_def)

lemma isChat_moveOf:
  "filter isChat (case moveOf f of None \<Rightarrow> []
        | Some (t, d) \<Rightarrow> [WInput \<lparr>Input_Type = t, Input_Amount = 2\<rparr>]) = []"
  by (simp split: option.split)

lemma Update_chats:
  "filter isChat (snd (Update f g))
     = snd (Update_chatCursorToggle f (afterChatBoxToggle f g))"
proof -
  have "filter isChat (snd (Update_chatCursorToggle f (afterChatBoxToggle f g)))
          = snd (Update_chatCursorToggle f (afterChatBoxToggle f g))"
    using Update_chatCursorToggle_out [of f "afterChatBoxToggle f g"] by auto
  then show ?thesis
    by (subst Update_out) (simp add: isChat_moveOf)
qed

lemma Update_chats_cases:
  "filter isChat (snd (Update f g)) = []
   \<or> filter isChat (snd (Update f g))
       = [WChat \<lparr>ChatMessage_Username = Username g,
                  ChatMessage_Message = currentChatMessage g\<rparr>]"
  using Update_chatCursorToggle_out [of f "afterChatBoxToggle f g"]
  by (simp add: Update_chats afterChatBoxToggle_keeps)

lemma Update_history:
  "chatMessages (fst (Update f g))
     = chatMessages g @ map chatLine (filter isChat (snd (Update f g)))"
  using Update_chatCursorToggle_sent [of f "afterChatBoxToggle f g"]
  by (auto simp: Update_chats Update_chatMessages afterChatBoxToggle_keeps)

lemma run_history:
  "chatMessages (fst (run fs g))
     = chatMessages g @ map chatLine (filter isChat (snd (run fs g)))"
proof (induction fs arbitrary: g)
  case Nil
  show ?case by simp
next
  case (Cons f fs)
  have "chatMessages (fst (run (f # fs) g)) = chatMessages (fst (run fs (fst (Update f g))))"
    by (simp add: split_beta)
  also have "\<dots> = chatMessages (fst (Update f g))
                   @ map chatLine (filter isChat (snd (run fs (fst (Update f g)))))"
    by (rule Cons.IH)
  also have "\<dots> = chatMessages g @ map chatLine (filter isChat (snd (Update f g)))
                   @ map chatLine (filter isChat (snd (run fs (fst (Update f g)))))"
    by (simp add: Update_history)
  also have "\<dots> = chatMessages g @ map chatLine (filter isChat (snd (run (f # fs) g)))"
    by (simp add: split_beta)
  finally show ?case .
qed

text \<open>
  Claim C1 as amended: the history is not capped. Over any run of \<^verbatim>\<open>Update\<close> steps, and so
  over a single step, the history is the history before followed by one line
  \<^verbatim>\<open>username: text\<close> for each chat message written to the connection, in the order written:
  nothing is ever evicted and the length grows by exactly one with each message sent. A
  single step sends no chat message or one, with the user's name and the text typed so far.
  What \<open>maxChatLines\<close> bounds is the number of lines \<^verbatim>\<open>drawChatBox\<close> prints.
\<close>

theorem chat_history_only_grows:
  "chatMessages (fst (run fs g))
     = chatMessages g @ map chatLine (filter isChat (snd (run fs g)))
   \<and> length (chatMessages (fst (run fs g)))
     = length (chatMessages g) + length (filter isChat (snd (run fs g)))
   \<and> chatMessages (fst (Update f g))
     = chatMessages g @ map chatLine (filter isChat (snd (Update f g)))
   \<and> (filter isChat (snd (Update f g)) = []
      \<or> filter isChat (snd (Update f g))
          = [WChat \<lparr>ChatMessage_Username = Username g,
                     ChatMessage_Message = currentChatMessage g\<rparr>])
   \<and> (drawChatBox h = Inr ls \<longrightarrow> int (length ls) \<le> maxChatLines)"
proof (intro conjI impI)
  show "chatMessages (fst (run fs g))
     = chatMessages g @ map chatLine (filter isChat (snd (run fs g)))"
    by (rule run_history)
  then show "length (chatMessages (fst (run fs g)))
     = length (chatMessages g) + length (filter isChat (snd (run fs g)))"
    by simp
  show "chatMessages (fst (Update f g))
     = chatMessages g @ map chatLine (filter isChat (snd (Update f g)))"
    by (rule Update_history)
  show "filter isChat (snd (Update f g)) = []
      \<or> filter isChat (snd (Update f g))
          = [WChat \<lparr>ChatMessage_Username = Username g,
                     ChatMessage_Message = currentChatMessage g\<rparr>]"
    by (rule Update_chats_cases)
next
  assume "drawChatBox h = Inr ls"
  then have "drawChatBox_loop h 0 [] = Inr ls" by (simp add: drawChatBox_def)
  from drawChatBox_loop_length [OF this] show "int (length ls) \<le> maxChatLines"
    by (simp add: maxChatLines_def)
qed

theorem chat_history_only_grows_witness:
  "drawChatBox (fst (run sendFrames exampleGame))
     = Inr (replicate 10 ''ann: hi'')
   \<and> int (length (replicate 10 ''ann: hi'')) \<le> maxChatLines
   \<and> length (filter isChat (snd (run sendFrames exampleGame))) = 11
   \<and> length (chatMessages (fst (run sendFrames exampleGame)))
       = length (chatMessages exampleGame) + 11
   \<and> chatMessages (fst (Update (keyFrame (600 * Millisecond) {KeyEnter}) chatAndMoveGame))
       = chatMessages chatAndMoveGame
           @ [Username chatAndMoveGame @ '': '' @ currentChatMessage chatAndMoveGame]"
proof -
  have h: "drawChatBox (fst (run sendFrames exampleGame)) = Inr (replicate 10 ''ann: hi'')"
    by code_simp
  have n: "length (filter isChat (snd (run sendFrames exampleGame))) = 11"
    by code_simp
  have sent: "filter isChat
                (snd (Update (keyFrame (600 * Millisecond) {KeyEnter}) chatAndMoveGame))
              \<noteq> []"
    by code_simp
  from
    chat_history_only_grows
      [of sendFrames exampleGame _ "fst (run sendFrames exampleGame)"
          "replicate 10 ''ann: hi''"]
    h n
  have a: "int (length (replicate 10 ''ann: hi'')) \<le> maxChatLines
    \<and> length (chatMessages (fst (run sendFrames exampleGame)))
       = length (chatMessages exampleGame) + 11"
    by simp
  from
    chat_history_only_grows
      [of "[]" chatAndMoveGame "keyFrame (600 * Millisecond) {KeyEnter}"]
    sent
  have b: "chatMessages (fst (Update (keyFrame (600 * Millisecond) {KeyEnter})
                                 chatAndMoveGame))
       = chatMessages chatAndMoveGame
           @ [Username chatAndMoveGame @ '': '' @ currentChatMessage chatAndMoveGame]"
    by auto
  from h n a b show ?thesis by simp
qed

section \<open>The wire format\<close>

lemma Update_out_mem:
  assumes "w \<in> set (snd (Update f g))"
  shows "w \<in> set (snd (Update_chatCursorToggle f (afterChatBoxToggle f g)))
         \<or> (\<exists>t d. moveOf f = Some (t, d) \<and> w = WInput \<lparr>Input_Type = t, Input_Amount = 2\<rparr>)"
proof (cases "moveOf f")
  case None
  with assms show ?thesis
    by (subst (asm) Update_out) (simp split: if_splits)
next
  case (Some m)
  obtain t d where "m = (t, d)" by (cases m)
  with Some assms show ?thesis
    by (subst (asm) Update_out) (auto split: if_splits)
qed

text \<open>
  Claim C7. Whatever a step of \<^verbatim>\<open>Update\<close> hands to \<^verbatim>\<open>WriteJSON\<close> is either an \<^verbatim>\<open>Input\<close>
  whose type is one of the four move commands and whose amount is 2, marshalled as an
  object with the fields \<^verbatim>\<open>type\<close> and \<^verbatim>\<open>amount\<close>, or a \<^verbatim>\<open>ChatMessage\<close>, marshalled as an
  object with exactly the fields \<^verbatim>\<open>username\<close> and \<^verbatim>\<open>message\<close>, holding the user's name and
  the text typed.
\<close>

theorem outbound_messages_wellformed:
  "\<forall>w\<in>set (snd (Update f g)).
      case w of
        WInput i \<Rightarrow>
          Input_Type i \<in> {''move_up'', ''move_down'', ''move_left'', ''move_right''}
          \<and> Input_Amount i = 2
          \<and> WriteJSON w = [(''type'', JString (Input_Type i)), (''amount'', JNumber 2)]
      | WChat c \<Rightarrow>
          WriteJSON w = [(''username'', JString (Username g)),
                         (''message'', JString (currentChatMessage g))]"
proof
  fix w assume "w \<in> set (snd (Update f g))"
  from Update_out_mem [OF this] consider
    (chat) "w \<in> set (snd (Update_chatCursorToggle f (afterChatBoxToggle f g)))"
    | (move) t d where "moveOf f = Some (t, d)"
        "w = WInput \<lparr>Input_Type = t, Input_Amount = 2\<rparr>"
    by blast
  then show "case w of
        WInput i \<Rightarrow>
          Input_Type i \<in> {''move_up'', ''move_down'', ''move_left'', ''move_right''}
          \<and> Input_Amount i = 2
          \<and> WriteJSON w = [(''type'', JString (Input_Type i)), (''amount'', JNumber 2)]
      | WChat c \<Rightarrow>
          WriteJSON w = [(''username'', JString (Username g)),
                         (''message'', JString (currentChatMessage g))]"
  proof cases
    case chat
    with Update_chatCursorToggle_out [of f "afterChatBoxToggle f g"]
    show ?thesis by (auto simp: afterChatBoxToggle_keeps)
  next
    case move
    with moveOf_type [OF move(1)] show ?thesis by simp
  qed
qed

theorem outbound_messages_wellformed_witness:
  "snd (Update (keyFrame (600 * Millisecond) {KeyEnter, KeyUp}) chatAndMoveGame)
     = [WChat \<lparr>ChatMessage_Username = ''ann'', ChatMessage_Message = ''hi''\<rparr>,
        WInput \<lparr>Input_Type = ''move_up'', Input_Amount = 2\<rparr>]
   \<and> WriteJSON (WChat \<lparr>ChatMessage_Username = ''ann'', ChatMessage_Message = ''hi''\<rparr>)
       = [(''username'', JString (Username chatAndMoveGame)),
          (''message'', JString (currentChatMessage chatAndMoveGame))]
   \<and> WriteJSON (WInput \<lparr>Input_Type = ''move_up'', Input_Amount = 2\<rparr>)
       = [(''type'', JString ''move_up''), (''amount'', JNumber 2)]"
proof -
  have out: "snd (Update (keyFrame (600 * Millisecond) {KeyEnter, KeyUp}) chatAndMoveGame)
     = [WChat \<lparr>ChatMessage_Username = ''ann'', ChatMessage_Message = ''hi''\<rparr>,
        WInput \<lparr>Input_Type = ''move_up'', Input_Amount = 2\<rparr>]"
    by code_simp
  from outbound_messages_wellformed
         [of "keyFrame (600 * Millisecond) {KeyEnter, KeyUp}" chatAndMoveGame]
  show ?thesis
    unfolding out by simp
qed

text \<open>Each of the four move commands is written by some step.\<close>

lemma each_move_type_is_written:
  "WInput \<lparr>Input_Type = ''move_up'', Input_Amount = 2\<rparr>
     \<in> set (snd (Update (keyFrame 0 {KeyUp}) exampleGame))
   \<and> WInput \<lparr>Input_Type = ''move_down'', Input_Amount = 2\<rparr>
     \<in> set (snd (Update (keyFrame 0 {KeyDown}) exampleGame))
   \<and> WInput \<lparr>Input_Type = ''move_left'', Input_Amount = 2\<rparr>
     \<in> set (snd (Update (keyFrame 0 {KeyLeft}) exampleGame))
   \<and> WInput \<lparr>Input_Type = ''move_right'', Input_Amount = 2\<rparr>
     \<in> set (snd (Update (keyFrame 0 {KeyRight}) exampleGame))"
  by code_simp

section \<open>The frame index\<close>

lemma go_rem_bounds:
  assumes "0 < n"
  shows "- n < go_rem a n" and "go_rem a n < n"
proof -
  have m: "0 \<le> \<bar>a\<bar> mod n" "\<bar>a\<bar> mod n < n" using assms by simp_all
  consider (neg) "a < 0" | (zero) "a = 0" | (pos) "0 < a" by linarith
  then have "- n < go_rem a n \<and> go_rem a n < n"
  proof cases
    case neg
    then have "go_rem a n = - (\<bar>a\<bar> mod n)" using assms by (simp add: go_rem_def)
    with m assms show ?thesis by linarith
  next
    case zero
    then have "go_rem a n = 0" by (simp add: go_rem_def)
    with assms show ?thesis by linarith
  next
    case pos
    then have "go_rem a n = \<bar>a\<bar> mod n" using assms by (simp add: go_rem_def)
    with m assms show ?thesis by linarith
  qed
  then show "- n < go_rem a n" and "go_rem a n < n" by simp_all
qed

lemma go_rem_nonneg: "0 \<le> a \<Longrightarrow> 0 < n \<Longrightarrow> go_rem a n = a mod n"
  by (simp add: go_rem_def sgn_if)

lemma wrap64_id: "- (2 ^ 63) \<le> x \<Longrightarrow> x < 2 ^ 63 \<Longrightarrow> wrap64 x = x"
  by (simp add: wrap64_def)

text \<open>
  What \<^verbatim>\<open>updateFrameIndex\<close> itself guarantees: the new index is the remainder of the old
  index plus one, or \<open>0\<close> without frames, and \<^verbatim>\<open>getCurrentFrame\<close>, called in the state it
  returns, does not answer \<^verbatim>\<open>frame index out of range\<close>.
\<close>

lemma updateFrameIndex_FrameIndex:
  "FrameIndex (updateFrameIndex g)
     = (if 0 < length (PlayerImages g (Direction g) (animationType g))
        then go_rem (wrap64 (FrameIndex g + 1))
               (int (length (PlayerImages g (Direction g) (animationType g))))
        else 0)"
  by (simp add: updateFrameIndex_def Let_def)

lemma updateFrameIndex_same_table:
  "PlayerImages (updateFrameIndex g) (Direction (updateFrameIndex g))
     (animationType (updateFrameIndex g))
   = PlayerImages g (Direction g) (animationType g)"
  by (simp add: updateFrameIndex_def Let_def animationType_def)

lemma updateFrameIndex_not_out_of_range:
  "getCurrentFrame (updateFrameIndex g) \<noteq> Inl FrameIndexOutOfRange"
proof (cases "0 < length (PlayerImages g (Direction g) (animationType g))")
  case False
  then show ?thesis
    by (simp add: getCurrentFrame_def Let_def updateFrameIndex_same_table)
next
  case True
  then have "FrameIndex (updateFrameIndex g)
             < int (length (PlayerImages g (Direction g) (animationType g)))"
    by (simp add: updateFrameIndex_FrameIndex go_rem_bounds)
  then show ?thesis
    by (simp add: getCurrentFrame_def Let_def updateFrameIndex_same_table)
qed

lemma updateFrameIndex_wraps:
  assumes "0 \<le> FrameIndex g" and "FrameIndex g < 2 ^ 63 - 1"
    and "0 < length (PlayerImages g (Direction g) (animationType g))"
  shows "FrameIndex (updateFrameIndex g)
           = (FrameIndex g + 1) mod int (length (PlayerImages g (Direction g) (animationType g)))"
    and "\<exists>img. getCurrentFrame (updateFrameIndex g) = Inr img"
proof -
  from assms(1,2) have w: "wrap64 (FrameIndex g + 1) = FrameIndex g + 1"
    by (intro wrap64_id) simp_all
  with assms show eq: "FrameIndex (updateFrameIndex g)
           = (FrameIndex g + 1) mod int (length (PlayerImages g (Direction g) (animationType g)))"
    by (simp add: updateFrameIndex_FrameIndex go_rem_nonneg)
  from assms(3) have "0 \<le> FrameIndex (updateFrameIndex g)"
    "FrameIndex (updateFrameIndex g)
       < int (length (PlayerImages g (Direction g) (animationType g)))"
    unfolding eq by simp_all
  with assms(3) show "\<exists>img. getCurrentFrame (updateFrameIndex g) = Inr img"
    by (simp add: getCurrentFrame_def Let_def updateFrameIndex_same_table)
qed

text \<open>
  Claim C3 fails on the code. \<^verbatim>\<open>Update\<close> clears \<^verbatim>\<open>IsMoving\<close> in every step and calls
  \<^verbatim>\<open>updateFrameIndex\<close> only when the tick has reached the animation speed, so a step can
  change the animation type and keep the index. With three walking frames and one idle
  frame, ten frames of walking (speed 10) bring the index to \<open>1\<close>; in the next frame the key
  is released, the animation is the idle one (speed 30), the index is still \<open>1\<close> and
  \<^verbatim>\<open>getCurrentFrame\<close> answers \<^verbatim>\<open>frame index out of range\<close>, over a frame table that never
  changed. \<^verbatim>\<open>setDirection\<close> resets the index when the direction changes; nothing resets it
  when the animation type does.
\<close>

theorem frame_index_out_of_range_after_stop:
  "FrameIndex (fst (run walkFrames exampleGame)) = 1
   \<and> getCurrentFrame (fst (run walkFrames exampleGame)) = Inr 1
   \<and> FrameIndex (fst (run (walkFrames @ [keyFrame (176 * Millisecond) {}]) exampleGame)) = 1
   \<and> getCurrentFrame (fst (run (walkFrames @ [keyFrame (176 * Millisecond) {}]) exampleGame))
       = Inl FrameIndexOutOfRange"
  by code_simp

section \<open>The length of the text being typed\<close>

text \<open>
  What the test of line 217 does guarantee: a text of at most 103 bytes stays within 103
  bytes, and a text of at most 100 bytes stays within 100 when only ASCII is typed.
\<close>

lemma string_of_rune_length: "length (string_of_rune r) \<le> 4"
  by (simp add: string_of_rune_def)

lemma string_of_rune_ascii: "0 \<le> r \<Longrightarrow> r \<le> 127 \<Longrightarrow> length (string_of_rune r) = 1"
  by (simp add: string_of_rune_def)

lemma appendChars_bound:
  "length s \<le> 103 \<Longrightarrow> length (appendChars cs s) \<le> 103"
proof (induction cs arbitrary: s)
  case Nil
  then show ?case by simp
next
  case (Cons c cs)
  have "length (if int (length s) < maxMessageLen then s @ string_of_rune c else s) \<le> 103"
    using Cons.prems string_of_rune_length [of c] by (simp add: maxMessageLen_def)
  from Cons.IH [OF this] show ?case by simp
qed

lemma appendChars_ascii_bound:
  "length s \<le> 100 \<Longrightarrow> \<forall>c\<in>set cs. 0 \<le> c \<and> c \<le> 127 \<Longrightarrow>
   length (appendChars cs s) \<le> 100"
proof (induction cs arbitrary: s)
  case Nil
  then show ?case by simp
next
  case (Cons c cs)
  have "length (if int (length s) < maxMessageLen then s @ string_of_rune c else s) \<le> 100"
    using Cons.prems string_of_rune_ascii [of c] by (simp add: maxMessageLen_def)
  from Cons.IH [OF this] Cons.prems(2) show ?case by simp
qed

lemma handleChatInput_bound:
  "length (currentChatMessage g) \<le> 103 \<Longrightarrow>
   length (currentChatMessage (handleChatInput f g)) \<le> 103"
  using appendChars_bound [of "currentChatMessage g" "inputChars f"]
  by (auto simp add: handleChatInput_def Let_def)

text \<open>
  Claim C4 fails on the code. Line 217 compares the length in bytes with \<open>maxMessageLen\<close>
  and line 218 then appends a whole rune, which is up to four bytes. With 99 bytes typed,
  the letter \<^verbatim>\<open>U+00E9\<close> (two bytes) makes 101.
\<close>

theorem chat_text_longer_than_cap:
  "length (currentChatMessage typingGame) = 99
   \<and> length (currentChatMessage
               (handleChatInput (typeFrame (316 * Millisecond) {} [233]) typingGame)) = 101
   \<and> length (currentChatMessage
               (fst (Update (typeFrame (316 * Millisecond) {} [233]) typingGame))) = 101
   \<and> \<not> int (length (currentChatMessage
               (handleChatInput (typeFrame (316 * Millisecond) {} [233]) typingGame)))
         \<le> maxMessageLen"
  by code_simp

end
